theory Spec2Isabelle
  imports Main "HOL-Library.Word" "HOL-Library.Char_ord" "HOL-Library.List_Lexorder"
begin

section \<open>Errors and panics\<close>

text \<open>
  Go functions of \<^verbatim>\<open>request.go\<close> return \<^verbatim>\<open>(value, error)\<close>; a returned error is the
  left injection of a sum. A run-time panic (an index out of range) is not a returned
  error: it unwinds the goroutine, so it is a separate outcome.
\<close>

datatype error =
    EscapeError string
  | SemicolonError
  | ControlCharError
  | MissingProtocolScheme
  | InvalidMethod string
  | FileContentsNil
  | LibraryError string

datatype panic = IndexOutOfRange nat nat | NilDereference

datatype 'a run = Panics panic | Returns 'a

section \<open>Bytes\<close>

text \<open>
  A Go string is a sequence of bytes, compared bytewise; \<^typ>\<open>string\<close> with the order of
  \<^verbatim>\<open>Char_ord\<close> and \<^verbatim>\<open>List_Lexorder\<close> is the same.
\<close>

definition isLower :: "char \<Rightarrow> bool" where
  "isLower c = (CHR ''a'' \<le> c \<and> c \<le> CHR ''z'')"

definition isUpper :: "char \<Rightarrow> bool" where
  "isUpper c = (CHR ''A'' \<le> c \<and> c \<le> CHR ''Z'')"

definition isDigit :: "char \<Rightarrow> bool" where
  "isDigit c = (CHR ''0'' \<le> c \<and> c \<le> CHR ''9'')"

definition isAlnum :: "char \<Rightarrow> bool" where
  "isAlnum c = (isLower c \<or> isUpper c \<or> isDigit c)"

definition toLower :: "char \<Rightarrow> char" where
  "toLower c = (if isUpper c then char_of (of_char c + (32::nat)) else c)"

definition toUpper :: "char \<Rightarrow> char" where
  "toUpper c = (if isLower c then char_of (of_char c - (32::nat)) else c)"

definition ishex :: "char \<Rightarrow> bool" where
  "ishex c = (isDigit c \<or> (CHR ''a'' \<le> c \<and> c \<le> CHR ''f'') \<or> (CHR ''A'' \<le> c \<and> c \<le> CHR ''F''))"

definition unhex :: "char \<Rightarrow> nat" where
  "unhex c =
     (if isDigit c then of_char c - of_char CHR ''0''
      else if CHR ''a'' \<le> c \<and> c \<le> CHR ''f'' then of_char c - of_char CHR ''a'' + 10
      else if CHR ''A'' \<le> c \<and> c \<le> CHR ''F'' then of_char c - of_char CHR ''A'' + 10
      else 0)"

definition upperhex :: "nat \<Rightarrow> char" where
  "upperhex n = (if n < 10 then char_of (of_char CHR ''0'' + n) else char_of (of_char CHR ''A'' + (n - 10)))"

text \<open>\<^verbatim>\<open>strings.Cut(s, sep)\<close> for a one-byte separator: the text before the first
  separator, and the text after it (empty when there is none).\<close>

definition cutBefore :: "char \<Rightarrow> string \<Rightarrow> string" where
  "cutBefore sep s = takeWhile (\<lambda>c. c \<noteq> sep) s"

definition cutAfter :: "char \<Rightarrow> string \<Rightarrow> string" where
  "cutAfter sep s = drop 1 (dropWhile (\<lambda>c. c \<noteq> sep) s)"

section \<open>Package net/url: query values\<close>

text \<open>
  \<^verbatim>\<open>url.Values\<close> is \<^verbatim>\<open>map[string][]string\<close>. It is an association list with distinct
  keys; every operation below keeps the keys distinct, and \<^verbatim>\<open>Encode\<close> sorts them.
\<close>

type_synonym Values = "(string \<times> string list) list"

definition Values_Get :: "Values \<Rightarrow> string \<Rightarrow> string list" where
  "Values_Get v k = (case map_of v k of None \<Rightarrow> [] | Some vs \<Rightarrow> vs)"

fun Values_Put :: "Values \<Rightarrow> string \<Rightarrow> string list \<Rightarrow> Values" where
  "Values_Put [] k vs = [(k, vs)]"
| "Values_Put ((k', vs') # v) k vs =
     (if k' = k then (k, vs) # v else (k', vs') # Values_Put v k vs)"

definition Values_Set :: "Values \<Rightarrow> string \<Rightarrow> string \<Rightarrow> Values" where
  "Values_Set v k x = Values_Put v k [x]"

definition Values_Add :: "Values \<Rightarrow> string \<Rightarrow> string \<Rightarrow> Values" where
  "Values_Add v k x = Values_Put v k (Values_Get v k @ [x])"

text \<open>\<^verbatim>\<open>shouldEscape(c, encodeQueryComponent)\<close>: letters, digits and \<^verbatim>\<open>-_.~\<close> are kept.\<close>

definition shouldEscape :: "char \<Rightarrow> bool" where
  "shouldEscape c = (\<not> (isAlnum c \<or> c = CHR ''-'' \<or> c = CHR ''_'' \<or> c = CHR ''.'' \<or> c = CHR ''~''))"

fun QueryEscape :: "string \<Rightarrow> string" where
  "QueryEscape [] = []"
| "QueryEscape (c # cs) =
     (if c = CHR '' '' then CHR ''+'' # QueryEscape cs
      else if shouldEscape c
        then CHR ''%'' # upperhex (of_char c div 16) # upperhex (of_char c mod 16) # QueryEscape cs
      else c # QueryEscape cs)"

text \<open>\<^verbatim>\<open>QueryUnescape\<close>: \<^verbatim>\<open>%XY\<close> is one byte, \<^verbatim>\<open>+\<close> is a space; a \<^verbatim>\<open>%\<close> not followed
  by two hexadecimal digits is an \<^verbatim>\<open>EscapeError\<close>.\<close>

fun QueryUnescape :: "string \<Rightarrow> error + string" where
  "QueryUnescape [] = Inr []"
| "QueryUnescape (c # cs) =
     (if c = CHR ''%'' then
        (case cs of
           a # b # rest \<Rightarrow>
             if ishex a \<and> ishex b then
               (case QueryUnescape rest of
                  Inl e \<Rightarrow> Inl e
                | Inr r \<Rightarrow> Inr (char_of (unhex a * 16 + unhex b) # r))
             else Inl (EscapeError (take 3 (c # cs)))
         | _ \<Rightarrow> Inl (EscapeError (take 3 (c # cs))))
      else
        (case QueryUnescape cs of
           Inl e \<Rightarrow> Inl e
         | Inr r \<Rightarrow> Inr ((if c = CHR ''+'' then CHR '' '' else c) # r)))"

text \<open>
  \<^verbatim>\<open>Values.Encode\<close>: the keys are sorted, and each value of each key is written as
  \<^verbatim>\<open>key=value\<close>, both escaped, with \<^verbatim>\<open>&\<close> before it when the buffer is not empty.
\<close>

fun writeValues :: "string \<Rightarrow> string \<Rightarrow> string list \<Rightarrow> string" where
  "writeValues buf keyEscaped [] = buf"
| "writeValues buf keyEscaped (x # xs) =
     writeValues ((if buf \<noteq> [] then buf @ ''&'' else buf) @ keyEscaped @ ''='' @ QueryEscape x)
       keyEscaped xs"

fun writeKeys :: "Values \<Rightarrow> string \<Rightarrow> string list \<Rightarrow> string" where
  "writeKeys v buf [] = buf"
| "writeKeys v buf (k # ks) = writeKeys v (writeValues buf (QueryEscape k) (Values_Get v k)) ks"

definition Values_Encode :: "Values \<Rightarrow> string" where
  "Values_Encode v = (if v = [] then [] else writeKeys v [] (sort (map fst v)))"

text \<open>
  \<^verbatim>\<open>url.ParseQuery\<close>: the query is cut at each \<^verbatim>\<open>&\<close>; a pair holding a semicolon, or whose
  key or value does not unescape, is skipped and an error is remembered; the values
  parsed from the other pairs are returned together with that error.
\<close>

function parseQuery :: "Values \<Rightarrow> error option \<Rightarrow> string \<Rightarrow> Values \<times> error option" where
  "parseQuery m err query =
     (if query = [] then (m, err)
      else
        let key = cutBefore CHR ''&'' query; query' = cutAfter CHR ''&'' query in
        if CHR '';'' \<in> set key then parseQuery m (Some SemicolonError) query'
        else if key = [] then parseQuery m err query'
        else
          (case QueryUnescape (cutBefore CHR ''='' key) of
             Inl e1 \<Rightarrow> parseQuery m (if err = None then Some e1 else err) query'
           | Inr k \<Rightarrow>
               (case QueryUnescape (cutAfter CHR ''='' key) of
                  Inl e1 \<Rightarrow> parseQuery m (if err = None then Some e1 else err) query'
                | Inr x \<Rightarrow> parseQuery (Values_Add m k x) err query')))"
  by pat_completeness auto
termination
proof -
  have less: "length (cutAfter c q) < length q" if "q \<noteq> []" for c q
  proof -
    have "length (dropWhile (\<lambda>x. x \<noteq> c) q) \<le> length q"
      by (rule length_dropWhile_le)
    moreover have "0 < length q"
      using that by simp
    ultimately show ?thesis
      unfolding cutAfter_def length_drop by arith
  qed
  show ?thesis
    by (relation "measure (\<lambda>(m, err, query). length query)") (auto simp: less)
qed

definition ParseQuery :: "string \<Rightarrow> Values \<times> error option" where
  "ParseQuery query = parseQuery [] None query"

section \<open>Package net/url: URLs\<close>

text \<open>
  A parsed URL. \<^verbatim>\<open>url.Parse\<close> cuts the fragment at the first \<^verbatim>\<open>#\<close>, refuses control
  bytes, splits the scheme off (\<^verbatim>\<open>getScheme\<close>) and cuts the query at the first \<^verbatim>\<open>?\<close>.
  The authority and the path are not interpreted here: \<open>Rest\<close> is the text between the
  scheme and the query, which \<^verbatim>\<open>URL.String\<close> writes back as it is for a URL in normal
  form, and the fragment is kept in its escaped form. No function of \<^verbatim>\<open>request.go\<close>
  reads the authority or the path.
\<close>

record URL =
  Scheme :: string
  Rest :: string
  RawQuery :: string
  ForceQuery :: bool
  Fragment :: string

fun getScheme :: "string \<Rightarrow> string \<Rightarrow> string \<Rightarrow> error + (string \<times> string)" where
  "getScheme rawURL seen [] = Inr ([], rawURL)"
| "getScheme rawURL seen (c # cs) =
     (if isLower c \<or> isUpper c then getScheme rawURL (seen @ [c]) cs
      else if isDigit c \<or> c = CHR ''+'' \<or> c = CHR ''-'' \<or> c = CHR ''.'' then
        (if seen = [] then Inr ([], rawURL) else getScheme rawURL (seen @ [c]) cs)
      else if c = CHR '':'' then
        (if seen = [] then Inl MissingProtocolScheme else Inr (seen, cs))
      else Inr ([], rawURL))"

definition isCTLByte :: "char \<Rightarrow> bool" where
  "isCTLByte c = (c < CHR '' '' \<or> c = CHR 0x7F)"

definition url_parse :: "string \<Rightarrow> error + URL" where
  "url_parse rawURL =
     (if \<exists>c \<in> set rawURL. isCTLByte c then Inl ControlCharError
      else if rawURL = ''*'' then
        Inr \<lparr>Scheme = [], Rest = ''*'', RawQuery = [], ForceQuery = False, Fragment = []\<rparr>
      else
        (case getScheme rawURL [] rawURL of
           Inl err \<Rightarrow> Inl err
         | Inr (scheme, rest) \<Rightarrow>
             if rest \<noteq> [] \<and> last rest = CHR ''?'' \<and> count_list rest CHR ''?'' = 1 then
               Inr \<lparr>Scheme = map toLower scheme, Rest = butlast rest, RawQuery = [],
                    ForceQuery = True, Fragment = []\<rparr>
             else
               Inr \<lparr>Scheme = map toLower scheme, Rest = cutBefore CHR ''?'' rest,
                    RawQuery = cutAfter CHR ''?'' rest, ForceQuery = False, Fragment = []\<rparr>))"

definition url_Parse :: "string \<Rightarrow> error + URL" where
  "url_Parse rawURL =
     (let u = cutBefore CHR ''#'' rawURL; frag = cutAfter CHR ''#'' rawURL in
      case url_parse u of
        Inl err \<Rightarrow> Inl err
      | Inr url \<Rightarrow>
          if frag = [] then Inr url
          else (case QueryUnescape frag of
                  Inl err \<Rightarrow> Inl err
                | Inr _ \<Rightarrow> Inr (url\<lparr>Fragment := frag\<rparr>)))"

definition URL_String :: "URL \<Rightarrow> string" where
  "URL_String u =
     (if Scheme u \<noteq> [] then Scheme u @ '':'' else []) @ Rest u
     @ (if ForceQuery u \<or> RawQuery u \<noteq> [] then ''?'' @ RawQuery u else [])
     @ (if Fragment u \<noteq> [] then ''#'' @ Fragment u else [])"

section \<open>Package strings\<close>

text \<open>\<^verbatim>\<open>strings.Replace(s, old, new, -1)\<close>: every non-overlapping occurrence of \<open>old\<close>,
  from the left, is replaced. (An empty \<open>old\<close> matches before every byte and at the end.)\<close>

function Replace :: "string \<Rightarrow> string \<Rightarrow> string \<Rightarrow> string" where
  "Replace [] old new = (if old = [] then new else [])"
| "Replace (c # cs) old new =
     (if old = [] then new @ c # Replace cs old new
      else if take (length old) (c # cs) = old
        then new @ Replace (drop (length old) (c # cs)) old new
      else c # Replace cs old new)"
  by pat_completeness auto
termination
proof (relation "measure (\<lambda>(s, old, new). length s)")
  fix c :: char and cs old new :: string
  assume "old \<noteq> []"
  then have "0 < length old"
    by simp
  then show "((drop (length old) (c # cs), old, new), c # cs, old, new)
      \<in> measure (\<lambda>(s, old, new). length s)"
    by simp
qed auto

text \<open>\<^verbatim>\<open>strings.Join(elems, sep)\<close>.\<close>

fun Join :: "string list \<Rightarrow> string \<Rightarrow> string" where
  "Join [] sep = []"
| "Join [x] sep = x"
| "Join (x # y # ys) sep = x @ sep @ Join (y # ys) sep"

section \<open>Package net/http\<close>

text \<open>\<^verbatim>\<open>http.Header\<close> is \<^verbatim>\<open>map[string][]string\<close> under canonical keys.\<close>

type_synonym Header = "(string \<times> string list) list"

definition isTokenByte :: "char \<Rightarrow> bool" where
  "isTokenByte c = (isAlnum c \<or> c \<in> set ''!#$%&*+-.^_`|~'' \<or> c = CHR 0x27)"

fun canonicalize :: "bool \<Rightarrow> string \<Rightarrow> string" where
  "canonicalize upper [] = []"
| "canonicalize upper (c # cs) =
     (if upper \<and> isLower c then toUpper c
      else if \<not> upper \<and> isUpper c then toLower c
      else c) # canonicalize (c = CHR ''-'') cs"

definition CanonicalMIMEHeaderKey :: "string \<Rightarrow> string" where
  "CanonicalMIMEHeaderKey s = (if \<forall>c \<in> set s. isTokenByte c then canonicalize True s else s)"

definition Header_Get :: "Header \<Rightarrow> string \<Rightarrow> string" where
  "Header_Get h key = (case Values_Get h (CanonicalMIMEHeaderKey key) of [] \<Rightarrow> [] | x # _ \<Rightarrow> x)"

definition Header_Set :: "Header \<Rightarrow> string \<Rightarrow> string \<Rightarrow> Header" where
  "Header_Set h key val = Values_Set h (CanonicalMIMEHeaderKey key) val"

definition Header_Add :: "Header \<Rightarrow> string \<Rightarrow> string \<Rightarrow> Header" where
  "Header_Add h key val = Values_Add h (CanonicalMIMEHeaderKey key) val"

text \<open>
  An \<^verbatim>\<open>io.ReadCloser\<close>: the bytes \<^verbatim>\<open>Read\<close> still delivers, the error it returns after
  them (\<open>None\<close> is \<^verbatim>\<open>io.EOF\<close>), and how many times \<^verbatim>\<open>Close\<close> has been called.
\<close>

record ReadCloser =
  pending :: string
  failure :: "error option"
  closed :: nat

definition io_Copy :: "ReadCloser \<Rightarrow> string \<times> error option \<times> ReadCloser" where
  "io_Copy src = (pending src, failure src, src\<lparr>pending := []\<rparr>)"

definition Close :: "ReadCloser \<Rightarrow> ReadCloser" where
  "Close src = src\<lparr>closed := closed src + 1\<rparr>"

datatype Body = NoBody | Buffer string | Stream ReadCloser

record Request =
  Method :: string
  ReqURL :: URL
  ReqHeader :: Header
  ReqBody :: Body

definition validMethod :: "string \<Rightarrow> bool" where
  "validMethod method = (method \<noteq> [] \<and> (\<forall>c \<in> set method. isTokenByte c))"

definition NewRequest :: "string \<Rightarrow> string \<Rightarrow> Body \<Rightarrow> error + Request" where
  "NewRequest method url body =
     (let method = (if method = [] then ''GET'' else method) in
      if \<not> validMethod method then Inl (InvalidMethod method)
      else
        (case url_Parse url of
           Inl err \<Rightarrow> Inl err
         | Inr u \<Rightarrow> Inr \<lparr>Method = method, ReqURL = u, ReqHeader = [], ReqBody = body\<rparr>))"

text \<open>\<^verbatim>\<open>Request.SetBasicAuth\<close> sets \<^verbatim>\<open>Authorization\<close> to \<^verbatim>\<open>Basic\<close> and the standard
  base64 encoding of \<^verbatim>\<open>username:password\<close>.\<close>

definition b64 :: "nat \<Rightarrow> char" where
  "b64 n = ''ABCDEFGHIJKLMNOPQRSTUVWXYZabcdefghijklmnopqrstuvwxyz0123456789+/'' ! (n mod 64)"

fun base64 :: "string \<Rightarrow> string" where
  "base64 [] = []"
| "base64 [a] =
     (let x = of_char a in [b64 (x div 4), b64 (x mod 4 * 16), CHR ''='', CHR ''=''])"
| "base64 [a, b] =
     (let x = of_char a * 256 + of_char b
      in [b64 (x div 1024), b64 (x div 16), b64 (x mod 16 * 4), CHR ''=''])"
| "base64 (a # b # c # rest) =
     (let x = of_char a * 65536 + of_char b * 256 + of_char c
      in [b64 (x div 262144), b64 (x div 4096), b64 (x div 64), b64 x] @ base64 rest)"

definition SetBasicAuth :: "Header \<Rightarrow> string \<Rightarrow> string \<Rightarrow> Header" where
  "SetBasicAuth h username password =
     Header_Set h ''Authorization'' (''Basic '' @ base64 (username @ '':'' @ password))"

text \<open>\<^verbatim>\<open>Request.AddCookie\<close>: the sanitized \<^verbatim>\<open>name=value\<close> is appended to the
  \<^verbatim>\<open>Cookie\<close> header after \<^verbatim>\<open>; \<close>.\<close>

record Cookie =
  CookieName :: string
  CookieValue :: string

definition sanitizeCookieName :: "string \<Rightarrow> string" where
  "sanitizeCookieName n = map (\<lambda>c. if c = CHR 0x0A \<or> c = CHR 0x0D then CHR ''-'' else c) n"

definition validCookieValueByte :: "char \<Rightarrow> bool" where
  "validCookieValueByte c =
     (CHR '' '' \<le> c \<and> c < CHR 0x7F \<and> c \<noteq> CHR 0x22 \<and> c \<noteq> CHR '';'' \<and> c \<noteq> CHR 0x5C)"

definition sanitizeCookieValue :: "string \<Rightarrow> string" where
  "sanitizeCookieValue v =
     (let v = filter validCookieValueByte v in
      if v = [] then v
      else if CHR '' '' \<in> set v \<or> CHR '','' \<in> set v then CHR 0x22 # v @ [CHR 0x22]
      else v)"

definition AddCookie :: "Header \<Rightarrow> Cookie \<Rightarrow> Header" where
  "AddCookie h c =
     (let s = sanitizeCookieName (CookieName c) @ ''='' @ sanitizeCookieValue (CookieValue c) in
      if Header_Get h ''Cookie'' \<noteq> [] then Header_Set h ''Cookie'' (Header_Get h ''Cookie'' @ ''; '' @ s)
      else Header_Set h ''Cookie'' s)"

text \<open>
  \<^verbatim>\<open>*http.Client\<close>: the shared \<^verbatim>\<open>http.DefaultClient\<close>, a client the caller made
  (named by its address), or the client \<^verbatim>\<open>BuildHTTPClient\<close> constructs, with the
  settings of its transport.
\<close>

datatype CookieJar = PublicSuffixJar

record Transport =
  Proxy :: "Request \<Rightarrow> error + URL option"
  DialerTimeout :: "64 word"
  DialerKeepAlive :: "64 word"
  TransportTLSHandshakeTimeout :: "64 word"
  TLSInsecureSkipVerify :: bool
  TransportDisableCompression :: bool

datatype Client = DefaultClient | CallerClient nat | NewClient CookieJar Transport

section \<open>Collaborators outside the repository\<close>

text \<open>
  What the Go libraries and the environment supply to one run, and \<^verbatim>\<open>request.go\<close> does
  not compute: the JSON and XML encoders (of a value of interface type, which may be
  nil), the random multipart boundary, whether the multipart writer fails to start the
  file part or to close, the tables of \<^verbatim>\<open>mime.TypeByExtension\<close>, the proxy the
  environment names, the round trip of \<^verbatim>\<open>Client.Do\<close>, and the package constant
  \<^verbatim>\<open>localUserAgent\<close>, which is declared in another file of the package.
\<close>

record ('j, 'x, 'r) Library =
  jsonEncode :: "'j option \<Rightarrow> error + string"
  xmlEncode :: "'x option \<Rightarrow> error + string"
  boundary :: string
  createFormFileError :: "error option"
  multipartCloseError :: "error option"
  mimeTypes :: "(string \<times> string) list"
  mimeTypesLower :: "(string \<times> string) list"
  ProxyFromEnvironment :: "Request \<Rightarrow> error + URL option"
  clientDo :: "Client \<Rightarrow> Request \<Rightarrow> error + 'r"
  localUserAgent :: string

text \<open>\<^verbatim>\<open>mime.TypeByExtension(ext)\<close>: \<open>ext\<close> is looked up as it is, then in lower case;
  the empty string when there is no entry.\<close>

definition TypeByExtension :: "('j, 'x, 'r) Library \<Rightarrow> string \<Rightarrow> string" where
  "TypeByExtension lib ext =
     (case map_of (mimeTypes lib) ext of
        Some v \<Rightarrow> v
      | None \<Rightarrow> (case map_of (mimeTypesLower lib) (map toLower ext) of Some v \<Rightarrow> v | None \<Rightarrow> []))"

text \<open>\<^verbatim>\<open>filepath.Ext(path)\<close>: the suffix from the last dot of the last element of the
  path, empty when that element has no dot. \<^verbatim>\<open>request.go\<close> does not call it; it says
  what the extension of a file name is.\<close>

fun Ext :: "string \<Rightarrow> string" where
  "Ext [] = []"
| "Ext (c # cs) =
     (if CHR ''/'' \<in> set cs \<or> CHR ''.'' \<in> set cs then Ext cs
      else if c = CHR ''.'' then c # cs
      else [])"

text \<open>The parts a \<^verbatim>\<open>multipart.Writer\<close> writes into its buffer.\<close>

definition escapeQuotes :: "string \<Rightarrow> string" where
  "escapeQuotes s =
     concat (map (\<lambda>c. if c = CHR 0x5C then [CHR 0x5C, CHR 0x5C]
                       else if c = CHR 0x22 then [CHR 0x5C, CHR 0x22] else [c]) s)"

definition CRLF :: string where
  "CRLF = [CHR 0x0D, CHR 0x0A]"

definition partStart :: "string \<Rightarrow> string \<Rightarrow> string" where
  "partStart buf bnd = (if buf = [] then ''--'' @ bnd @ CRLF else CRLF @ ''--'' @ bnd @ CRLF)"

definition CreateFormFile :: "string \<Rightarrow> string \<Rightarrow> string \<Rightarrow> string \<Rightarrow> string" where
  "CreateFormFile buf bnd fieldname filename =
     buf @ partStart buf bnd
     @ ''Content-Disposition: form-data; name='' @ [CHR 0x22] @ escapeQuotes fieldname @ [CHR 0x22]
     @ ''; filename='' @ [CHR 0x22] @ escapeQuotes filename @ [CHR 0x22] @ CRLF
     @ ''Content-Type: application/octet-stream'' @ CRLF @ CRLF"

definition WriteField :: "string \<Rightarrow> string \<Rightarrow> string \<Rightarrow> string \<Rightarrow> string" where
  "WriteField buf bnd fieldname val =
     buf @ partStart buf bnd
     @ ''Content-Disposition: form-data; name='' @ [CHR 0x22] @ escapeQuotes fieldname @ [CHR 0x22]
     @ CRLF @ CRLF @ val"

definition multipartClose :: "string \<Rightarrow> string \<Rightarrow> string" where
  "multipartClose buf bnd = buf @ CRLF @ ''--'' @ bnd @ ''--'' @ CRLF"

definition FormDataContentType :: "string \<Rightarrow> string" where
  "FormDataContentType bnd = ''multipart/form-data; boundary='' @ bnd"

section \<open>Request options\<close>

text \<open>
  \<^verbatim>\<open>RequestOptions\<close>. A Go map is ranged over in an order the language does not fix: a
  map is the list of its entries in the order of that run's iteration, with distinct
  keys. \<open>Data\<close> is tested against nil, so it is optional; for the other maps only
  \<^verbatim>\<open>len\<close> and \<^verbatim>\<open>range\<close> are used, which do not tell nil from empty. Pointers and
  interfaces that may be nil are optional values.
\<close>

record FileUpload =
  FileName :: string
  FileContents :: "ReadCloser option"

record ('j, 'x) RequestOptions =
  Data :: "(string \<times> string) list option"
  Params :: "(string \<times> string) list"
  File :: "FileUpload option"
  JSON :: "'j option"
  XML :: "'x option"
  Headers :: "(string \<times> string) list"
  InsecureSkipVerify :: bool
  DisableCompression :: bool
  UserAgent :: string
  Auth :: "string list option"
  IsAjax :: bool
  Cookies :: "Cookie list"
  UseCookieJar :: bool
  Proxies :: "(string \<times> URL option) list"
  TLSHandshakeTimeout :: "64 word"
  DialTimeout :: "64 word"
  DialKeepAlive :: "64 word"
  HTTPClient :: "Client option"

text \<open>The zero value \<^verbatim>\<open>RequestOptions{}\<close>.\<close>

definition zeroOptions :: "('j, 'x) RequestOptions" where
  "zeroOptions =
     \<lparr>Data = None, Params = [], File = None, JSON = None, XML = None, Headers = [],
      InsecureSkipVerify = False, DisableCompression = False, UserAgent = [], Auth = None,
      IsAjax = False, Cookies = [], UseCookieJar = False, Proxies = [],
      TLSHandshakeTimeout = 0, DialTimeout = 0, DialKeepAlive = 0, HTTPClient = None\<rparr>"

definition second :: "64 word" where
  "second = 1000000000"

definition dialTimeout :: "64 word" where
  "dialTimeout = 30 * second"

definition dialKeepAlive :: "64 word" where
  "dialKeepAlive = 30 * second"

definition tslHandshakeTimeout :: "64 word" where
  "tslHandshakeTimeout = 10 * second"

section \<open>Building the request body\<close>

definition createBasicJSONRequest ::
  "('j, 'x, 'r) Library \<Rightarrow> string \<Rightarrow> string \<Rightarrow> ('j, 'x) RequestOptions \<Rightarrow> error + Request" where
  "createBasicJSONRequest lib httpMethod userURL ro =
     (case jsonEncode lib (JSON ro) of
        Inl err \<Rightarrow> Inl err
      | Inr tempBuffer \<Rightarrow>
          (case NewRequest httpMethod userURL (Buffer tempBuffer) of
             Inl err \<Rightarrow> Inl err
           | Inr req \<Rightarrow>
               Inr (req\<lparr>ReqHeader := Header_Set (ReqHeader req) ''Content-Type'' ''application/json''\<rparr>)))"

definition createBasicXMLRequest ::
  "('j, 'x, 'r) Library \<Rightarrow> string \<Rightarrow> string \<Rightarrow> ('j, 'x) RequestOptions \<Rightarrow> error + Request" where
  "createBasicXMLRequest lib httpMethod userURL ro =
     (case xmlEncode lib (XML ro) of
        Inl err \<Rightarrow> Inl err
      | Inr tempBuffer \<Rightarrow>
          (case NewRequest httpMethod userURL (Buffer tempBuffer) of
             Inl err \<Rightarrow> Inl err
           | Inr req \<Rightarrow>
               Inr (req\<lparr>ReqHeader := Header_Set (ReqHeader req) ''Content-Type'' ''application/xml''\<rparr>)))"

text \<open>\<^verbatim>\<open>encodePostValues\<close>: each entry of the map is \<^verbatim>\<open>Set\<close> into fresh
  \<^verbatim>\<open>url.Values\<close>, which are then encoded.\<close>

definition encodePostValues :: "(string \<times> string) list \<Rightarrow> string" where
  "encodePostValues postValues =
     Values_Encode (fold (\<lambda>(key, val) urlValues. Values_Set urlValues key val) postValues [])"

definition entries :: "(string \<times> string) list option \<Rightarrow> (string \<times> string) list" where
  "entries m = (case m of None \<Rightarrow> [] | Some kvs \<Rightarrow> kvs)"

definition createBasicRequest ::
  "string \<Rightarrow> string \<Rightarrow> ('j, 'x) RequestOptions \<Rightarrow> error + Request" where
  "createBasicRequest httpMethod userURL ro =
     (case NewRequest httpMethod userURL (Buffer (encodePostValues (entries (Data ro)))) of
        Inl err \<Rightarrow> Inl err
      | Inr req \<Rightarrow>
          Inr (req\<lparr>ReqHeader :=
                 Header_Set (ReqHeader req) ''Content-Type'' ''application/x-www-form-urlencoded''\<rparr>))"

text \<open>
  \<^verbatim>\<open>createMultiPartPostRequest\<close>. The file's stream hangs off the options, so the
  options come back with the stream as the call left it. \<^verbatim>\<open>defer Close()\<close> is
  registered after the copy: it runs at every return below that line and at none above.
\<close>

definition withStream :: "('j, 'x) RequestOptions \<Rightarrow> FileUpload \<Rightarrow> ReadCloser \<Rightarrow> ('j, 'x) RequestOptions" where
  "withStream ro file src = ro\<lparr>File := Some (file\<lparr>FileContents := Some src\<rparr>)\<rparr>"

definition createMultiPartPostRequest ::
  "('j, 'x, 'r) Library \<Rightarrow> string \<Rightarrow> string \<Rightarrow> ('j, 'x) RequestOptions
     \<Rightarrow> ((error + Request) \<times> ('j, 'x) RequestOptions) run" where
  "createMultiPartPostRequest lib httpMethod userURL ro =
     (case File ro of
        None \<Rightarrow> Panics NilDereference
      | Some file \<Rightarrow>
          (case createFormFileError lib of
             Some err \<Rightarrow> Returns (Inl err, ro)
           | None \<Rightarrow>
               (case FileContents file of
                  None \<Rightarrow> Returns (Inl FileContentsNil, ro)
                | Some src \<Rightarrow>
                    (case io_Copy src of
                       (written, Some err, src') \<Rightarrow> Returns (Inl err, withStream ro file src')
                     | (written, None, src') \<Rightarrow>
                         let requestBody = CreateFormFile [] (boundary lib) ''file'' (FileName file) @ written;
                             requestBody = fold (\<lambda>(key, val) buf. WriteField buf (boundary lib) key val)
                                             (entries (Data ro)) requestBody;
                             ro' = withStream ro file (Close src')
                         in
                           (case multipartCloseError lib of
                              Some err \<Rightarrow> Returns (Inl err, ro')
                            | None \<Rightarrow>
                                (case NewRequest httpMethod userURL
                                        (Buffer (multipartClose requestBody (boundary lib))) of
                                   Inl err \<Rightarrow> Returns (Inl err, ro')
                                 | Inr req \<Rightarrow>
                                     Returns
                                       (Inr (req\<lparr>ReqHeader :=
                                               Header_Add (ReqHeader req) ''Content-Type''
                                                 (FormDataContentType (boundary lib))\<rparr>),
                                        ro')))))))"

definition fileBody :: "FileUpload \<Rightarrow> Body" where
  "fileBody file = (case FileContents file of None \<Rightarrow> NoBody | Some src \<Rightarrow> Stream src)"

definition createFileUploadRequest ::
  "('j, 'x, 'r) Library \<Rightarrow> string \<Rightarrow> string \<Rightarrow> ('j, 'x) RequestOptions
     \<Rightarrow> ((error + Request) \<times> ('j, 'x) RequestOptions) run" where
  "createFileUploadRequest lib httpMethod userURL ro =
     (if httpMethod = ''POST'' then createMultiPartPostRequest lib httpMethod userURL ro
      else
        (case File ro of
           None \<Rightarrow> Panics NilDereference
         | Some file \<Rightarrow>
             (case NewRequest httpMethod userURL (fileBody file) of
                Inl err \<Rightarrow> Returns (Inl err, ro)
              | Inr req \<Rightarrow>
                  Returns
                    (Inr (req\<lparr>ReqHeader :=
                            Header_Set (ReqHeader req) ''Content-Type''
                              (TypeByExtension lib (FileName file))\<rparr>),
                     ro))))"

definition buildHTTPRequest ::
  "('j, 'x, 'r) Library \<Rightarrow> string \<Rightarrow> string \<Rightarrow> ('j, 'x) RequestOptions
     \<Rightarrow> ((error + Request) \<times> ('j, 'x) RequestOptions) run" where
  "buildHTTPRequest lib httpMethod userURL ro =
     (if JSON ro \<noteq> None then Returns (createBasicJSONRequest lib httpMethod userURL ro, ro)
      else if XML ro \<noteq> None then Returns (createBasicXMLRequest lib httpMethod userURL ro, ro)
      else if File ro \<noteq> None then createFileUploadRequest lib httpMethod userURL ro
      else if Data ro \<noteq> None then Returns (createBasicRequest httpMethod userURL ro, ro)
      else Returns (NewRequest httpMethod userURL NoBody, ro))"

section \<open>Choosing the client\<close>

definition proxySettings ::
  "('j, 'x, 'r) Library \<Rightarrow> ('j, 'x) RequestOptions \<Rightarrow> Request \<Rightarrow> error + URL option" where
  "proxySettings lib ro req =
     (if length (Proxies ro) = 0 then ProxyFromEnvironment lib req
      else
        (case map_of (Proxies ro) (Scheme (ReqURL req)) of
           Some proxy \<Rightarrow> Inr proxy
         | None \<Rightarrow> ProxyFromEnvironment lib req))"

definition DontUseDefaultClient :: "('j, 'x) RequestOptions \<Rightarrow> bool" where
  "DontUseDefaultClient ro =
     (InsecureSkipVerify ro = True \<or>
      DisableCompression ro = True \<or>
      length (Proxies ro) \<noteq> 0 \<or>
      TLSHandshakeTimeout ro \<noteq> 0 \<or>
      DialTimeout ro \<noteq> 0 \<or>
      DialKeepAlive ro \<noteq> 0 \<or>
      length (Cookies ro) \<noteq> 0 \<or>
      UseCookieJar ro \<noteq> False)"

definition BuildHTTPClient :: "('j, 'x, 'r) Library \<Rightarrow> ('j, 'x) RequestOptions \<Rightarrow> Client" where
  "BuildHTTPClient lib ro =
     (case HTTPClient ro of
        Some client \<Rightarrow> client
      | None \<Rightarrow>
          if \<not> DontUseDefaultClient ro then DefaultClient
          else
            let ro = (if TLSHandshakeTimeout ro = 0 then ro\<lparr>TLSHandshakeTimeout := tslHandshakeTimeout\<rparr> else ro);
                ro = (if DialTimeout ro = 0 then ro\<lparr>DialTimeout := dialTimeout\<rparr> else ro);
                ro = (if DialKeepAlive ro = 0 then ro\<lparr>DialKeepAlive := dialKeepAlive\<rparr> else ro)
            in NewClient PublicSuffixJar
                 \<lparr>Proxy = proxySettings lib ro,
                  DialerTimeout = DialTimeout ro,
                  DialerKeepAlive = DialKeepAlive ro,
                  TransportTLSHandshakeTimeout = TLSHandshakeTimeout ro,
                  TLSInsecureSkipVerify = InsecureSkipVerify ro,
                  TransportDisableCompression = DisableCompression ro\<rparr>)"

section \<open>Assembling and sending\<close>

definition buildURLParams :: "string \<Rightarrow> (string \<times> string) list \<Rightarrow> error + string" where
  "buildURLParams userURL params =
     (case url_Parse userURL of
        Inl err \<Rightarrow> Inl err
      | Inr parsedURL \<Rightarrow>
          (case ParseQuery (RawQuery parsedURL) of
             (parsedQuery, err) \<Rightarrow>
               let parsedQuery = fold (\<lambda>(key, val) q. Values_Set q key val) params parsedQuery
               in Inr (Join [Replace (URL_String parsedURL) (''?'' @ RawQuery parsedURL) [],
                             Values_Encode parsedQuery] ''?'')))"

definition addHTTPHeaders ::
  "('j, 'x, 'r) Library \<Rightarrow> ('j, 'x) RequestOptions \<Rightarrow> Request \<Rightarrow> Request run" where
  "addHTTPHeaders lib ro req =
     (let h = fold (\<lambda>(key, val) h. Header_Set h key val) (Headers ro) (ReqHeader req);
          h = (if UserAgent ro \<noteq> [] then Header_Set h ''User-Agent'' (UserAgent ro)
               else Header_Set h ''User-Agent'' (localUserAgent lib))
      in
        (case (case Auth ro of
                 None \<Rightarrow> Returns h
               | Some auth \<Rightarrow>
                   if length auth \<le> 0 then Panics (IndexOutOfRange 0 (length auth))
                   else if length auth \<le> 1 then Panics (IndexOutOfRange 1 (length auth))
                   else Returns (SetBasicAuth h (auth ! 0) (auth ! 1))) of
           Panics p \<Rightarrow> Panics p
         | Returns h \<Rightarrow>
             Returns (req\<lparr>ReqHeader :=
                        if IsAjax ro = True then Header_Set h ''X-Requested-With'' ''XMLHttpRequest''
                        else h\<rparr>)))"

definition addCookies :: "('j, 'x) RequestOptions \<Rightarrow> Request \<Rightarrow> Request" where
  "addCookies ro req = req\<lparr>ReqHeader := fold (\<lambda>c h. AddCookie h c) (Cookies ro) (ReqHeader req)\<rparr>"

text \<open>
  \<^verbatim>\<open>buildRequest\<close>. The result is what the function returns, the requests it handed to
  \<^verbatim>\<open>Client.Do\<close> (none or one), and the options as the call left them.
\<close>

record ('j, 'x, 'r) Sent =
  returned :: "error + 'r"
  dispatched :: "(Client \<times> Request) list"
  optionsAfter :: "('j, 'x) RequestOptions"

definition buildRequest ::
  "('j, 'x, 'r) Library \<Rightarrow> string \<Rightarrow> string \<Rightarrow> ('j, 'x) RequestOptions option \<Rightarrow> Client option
     \<Rightarrow> ('j, 'x, 'r) Sent run" where
  "buildRequest lib httpMethod url ro httpClient =
     (let ro = (case ro of None \<Rightarrow> zeroOptions | Some ro \<Rightarrow> ro);
          httpClient = (case httpClient of None \<Rightarrow> BuildHTTPClient lib ro | Some c \<Rightarrow> c)
      in
        (case (if length (Params ro) \<noteq> 0 then buildURLParams url (Params ro) else Inr url) of
           Inl err \<Rightarrow> Returns \<lparr>returned = Inl err, dispatched = [], optionsAfter = ro\<rparr>
         | Inr url \<Rightarrow>
             (case buildHTTPRequest lib httpMethod url ro of
                Panics p \<Rightarrow> Panics p
              | Returns (Inl err, ro) \<Rightarrow>
                  Returns \<lparr>returned = Inl err, dispatched = [], optionsAfter = ro\<rparr>
              | Returns (Inr req, ro) \<Rightarrow>
                  (case addHTTPHeaders lib ro req of
                     Panics p \<Rightarrow> Panics p
                   | Returns req \<Rightarrow>
                       let req = addCookies ro req
                       in Returns \<lparr>returned = clientDo lib httpClient req,
                                   dispatched = [(httpClient, req)], optionsAfter = ro\<rparr>))))"

section \<open>A library to run the functions on\<close>

text \<open>
  The table \<^verbatim>\<open>builtinTypesLower\<close> of package \<^verbatim>\<open>mime\<close>, and a library for concrete
  runs: JSON and XML values are texts already encoded, written with the newline the
  encoders append; nothing fails; no proxy is configured in the environment; the
  transport answers with the method and the URL it was given.
\<close>

definition builtinTypesLower :: "(string \<times> string) list" where
  "builtinTypesLower =
     [(''.avif'', ''image/avif''), (''.css'', ''text/css; charset=utf-8''),
      (''.gif'', ''image/gif''), (''.htm'', ''text/html; charset=utf-8''),
      (''.html'', ''text/html; charset=utf-8''), (''.jpeg'', ''image/jpeg''),
      (''.jpg'', ''image/jpeg''), (''.js'', ''text/javascript; charset=utf-8''),
      (''.json'', ''application/json''), (''.mjs'', ''text/javascript; charset=utf-8''),
      (''.pdf'', ''application/pdf''), (''.png'', ''image/png''),
      (''.svg'', ''image/svg+xml''), (''.wasm'', ''application/wasm''),
      (''.webp'', ''image/webp''), (''.xml'', ''text/xml; charset=utf-8'')]"

definition encodeText :: "string option \<Rightarrow> error + string" where
  "encodeText v = (case v of None \<Rightarrow> Inr (''null'' @ [CHR 0x0A]) | Some t \<Rightarrow> Inr (t @ [CHR 0x0A]))"

definition plainLibrary :: "(string, string, string) Library" where
  "plainLibrary =
     \<lparr>jsonEncode = encodeText, xmlEncode = encodeText,
      boundary = ''0123456789abcdef'',
      createFormFileError = None, multipartCloseError = None,
      mimeTypes = builtinTypesLower, mimeTypesLower = builtinTypesLower,
      ProxyFromEnvironment = (\<lambda>req. Inr None),
      clientDo = (\<lambda>client req. Inr (Method req @ '' '' @ URL_String (ReqURL req))),
      localUserAgent = ''GRequests''\<rparr>"

section \<open>Header lookups used below\<close>

lemma canon_Content_Type: "CanonicalMIMEHeaderKey ''Content-Type'' = ''Content-Type''"
  by code_simp

lemma Header_Get_Set_empty: "Header_Get (Header_Set [] ''Content-Type'' v) ''Content-Type'' = v"
  by (simp add: Header_Get_def Header_Set_def Values_Set_def Values_Get_def canon_Content_Type)

section \<open>The client builder\<close>

text \<open>
  Claim C5. With no client supplied in the options, \<^verbatim>\<open>BuildHTTPClient\<close> returns the
  shared default client exactly when none of these holds: TLS verification is disabled,
  compression is disabled, there is a proxy entry, the TLS handshake timeout, the dial
  timeout or the dial keep-alive is not zero, there is a cookie, or the cookie jar is
  asked for. With a client supplied, that client is returned whatever the other fields
  say.
\<close>

theorem BuildHTTPClient_default_iff:
  "(HTTPClient ro = None \<longrightarrow>
      (BuildHTTPClient lib ro = DefaultClient \<longleftrightarrow>
       \<not> (InsecureSkipVerify ro \<or> DisableCompression ro \<or> Proxies ro \<noteq> [] \<or>
          TLSHandshakeTimeout ro \<noteq> 0 \<or> DialTimeout ro \<noteq> 0 \<or> DialKeepAlive ro \<noteq> 0 \<or>
          Cookies ro \<noteq> [] \<or> UseCookieJar ro)))
   \<and> (\<forall>client. HTTPClient ro = Some client \<longrightarrow> BuildHTTPClient lib ro = client)"
  by (auto simp: BuildHTTPClient_def DontUseDefaultClient_def Let_def)

theorem BuildHTTPClient_default_iff_witness:
  "\<forall>lib :: (unit, unit, unit) Library.
     BuildHTTPClient lib zeroOptions = DefaultClient
     \<and> BuildHTTPClient lib (zeroOptions\<lparr>UseCookieJar := True\<rparr>) \<noteq> DefaultClient
     \<and> BuildHTTPClient lib (zeroOptions\<lparr>DialTimeout := 5 * second\<rparr>) \<noteq> DefaultClient
     \<and> BuildHTTPClient lib
          (zeroOptions\<lparr>InsecureSkipVerify := True, HTTPClient := Some (CallerClient 7)\<rparr>)
         = CallerClient 7"
proof
  fix lib :: "(unit, unit, unit) Library"
  have five: "5 * second \<noteq> (0 :: 64 word)"
    by (simp add: second_def)
  show "BuildHTTPClient lib zeroOptions = DefaultClient
     \<and> BuildHTTPClient lib (zeroOptions\<lparr>UseCookieJar := True\<rparr>) \<noteq> DefaultClient
     \<and> BuildHTTPClient lib (zeroOptions\<lparr>DialTimeout := 5 * second\<rparr>) \<noteq> DefaultClient
     \<and> BuildHTTPClient lib
          (zeroOptions\<lparr>InsecureSkipVerify := True, HTTPClient := Some (CallerClient 7)\<rparr>)
         = CallerClient 7"
    using BuildHTTPClient_default_iff [of zeroOptions lib]
      BuildHTTPClient_default_iff [of "zeroOptions\<lparr>UseCookieJar := True\<rparr>" lib]
      BuildHTTPClient_default_iff [of "zeroOptions\<lparr>DialTimeout := 5 * second\<rparr>" lib]
      BuildHTTPClient_default_iff
        [of "zeroOptions\<lparr>InsecureSkipVerify := True, HTTPClient := Some (CallerClient 7)\<rparr>" lib]
      five
    by (simp add: zeroOptions_def)
qed

text \<open>
  Claim C8. \<^verbatim>\<open>proxySettings\<close>: with an empty proxy map the proxy is the one the
  environment names; when the map has the scheme of the request's URL, the mapped proxy
  is returned; when the map is not empty and lacks the scheme, the answer is again the
  environment's. The function has no error of its own: an error it returns is the
  environment resolver's.
\<close>

theorem proxySettings_resolution:
  "(Proxies ro = [] \<longrightarrow> proxySettings lib ro req = ProxyFromEnvironment lib req)
   \<and> (\<forall>proxy. map_of (Proxies ro) (Scheme (ReqURL req)) = Some proxy \<longrightarrow>
         proxySettings lib ro req = Inr proxy)
   \<and> (Proxies ro \<noteq> [] \<and> map_of (Proxies ro) (Scheme (ReqURL req)) = None \<longrightarrow>
         proxySettings lib ro req = ProxyFromEnvironment lib req)
   \<and> (\<forall>err. proxySettings lib ro req = Inl err \<longrightarrow> ProxyFromEnvironment lib req = Inl err)"
  by (auto simp: proxySettings_def split: option.splits)

theorem proxySettings_resolution_witness:
  "\<forall>lib :: (unit, unit, unit) Library.
     proxySettings lib
       (zeroOptions\<lparr>Proxies :=
          [(''http'', Some \<lparr>Scheme = ''http'', Rest = ''//127.0.0.1:8080'', RawQuery = [],
                             ForceQuery = False, Fragment = []\<rparr>)]\<rparr>)
       \<lparr>Method = ''GET'',
        ReqURL = \<lparr>Scheme = ''https'', Rest = ''//example.com/'', RawQuery = [],
                  ForceQuery = False, Fragment = []\<rparr>,
        ReqHeader = [], ReqBody = NoBody\<rparr>
     = ProxyFromEnvironment lib
       \<lparr>Method = ''GET'',
        ReqURL = \<lparr>Scheme = ''https'', Rest = ''//example.com/'', RawQuery = [],
                  ForceQuery = False, Fragment = []\<rparr>,
        ReqHeader = [], ReqBody = NoBody\<rparr>
   \<and> proxySettings lib
       (zeroOptions\<lparr>Proxies :=
          [(''http'', Some \<lparr>Scheme = ''http'', Rest = ''//127.0.0.1:8080'', RawQuery = [],
                             ForceQuery = False, Fragment = []\<rparr>)]\<rparr>)
       \<lparr>Method = ''GET'',
        ReqURL = \<lparr>Scheme = ''http'', Rest = ''//example.com/'', RawQuery = [],
                  ForceQuery = False, Fragment = []\<rparr>,
        ReqHeader = [], ReqBody = NoBody\<rparr>
     = Inr (Some \<lparr>Scheme = ''http'', Rest = ''//127.0.0.1:8080'', RawQuery = [],
                  ForceQuery = False, Fragment = []\<rparr>)"
proof
  fix lib :: "(unit, unit, unit) Library"
  let ?proxyA = "\<lparr>Scheme = ''http'', Rest = ''//127.0.0.1:8080'', RawQuery = [],
                  ForceQuery = False, Fragment = []\<rparr>"
  let ?ro = "(zeroOptions :: (unit, unit) RequestOptions)\<lparr>Proxies := [(''http'', Some ?proxyA)]\<rparr>"
  let ?https = "\<lparr>Method = ''GET'',
        ReqURL = \<lparr>Scheme = ''https'', Rest = ''//example.com/'', RawQuery = [],
                  ForceQuery = False, Fragment = []\<rparr>,
        ReqHeader = [], ReqBody = NoBody\<rparr>"
  let ?http = "\<lparr>Method = ''GET'',
        ReqURL = \<lparr>Scheme = ''http'', Rest = ''//example.com/'', RawQuery = [],
                  ForceQuery = False, Fragment = []\<rparr>,
        ReqHeader = [], ReqBody = NoBody\<rparr>"
  have nonempty: "Proxies ?ro \<noteq> []"
    by simp
  have miss: "map_of (Proxies ?ro) (Scheme (ReqURL ?https)) = None"
    by simp
  have hit: "map_of (Proxies ?ro) (Scheme (ReqURL ?http)) = Some (Some ?proxyA)"
    by simp
  have a: "proxySettings lib ?ro ?https = ProxyFromEnvironment lib ?https"
    using proxySettings_resolution [of ?ro lib ?https, THEN conjunct2, THEN conjunct2, THEN conjunct1]
      nonempty miss
    by blast
  have b: "proxySettings lib ?ro ?http = Inr (Some ?proxyA)"
    using proxySettings_resolution [of ?ro lib ?http, THEN conjunct2, THEN conjunct1] hit
    by blast
  show "proxySettings lib ?ro ?https = ProxyFromEnvironment lib ?https
      \<and> proxySettings lib ?ro ?http = Inr (Some ?proxyA)"
    using a b by (rule conjI)
qed

section \<open>The zero options\<close>

lemma buildHTTPRequest_zero:
  "buildHTTPRequest lib m u zeroOptions = Returns (NewRequest m u NoBody, zeroOptions)"
  by (simp add: buildHTTPRequest_def zeroOptions_def)

lemma addHTTPHeaders_zero:
  "addHTTPHeaders lib zeroOptions req =
     Returns (req\<lparr>ReqHeader := Header_Set (ReqHeader req) ''User-Agent'' (localUserAgent lib)\<rparr>)"
  by (simp add: addHTTPHeaders_def zeroOptions_def)

lemma addCookies_zero: "addCookies zeroOptions req = req"
  by (simp add: addCookies_def zeroOptions_def)

lemma BuildHTTPClient_zero: "BuildHTTPClient lib zeroOptions = DefaultClient"
  by (simp add: BuildHTTPClient_def DontUseDefaultClient_def zeroOptions_def)

lemma NewRequest_Header: "NewRequest m u body = Inr req \<Longrightarrow> ReqHeader req = []"
  by (auto simp: NewRequest_def Let_def split: if_splits sum.splits)

lemma NewRequest_Body: "NewRequest m u body = Inr req \<Longrightarrow> ReqBody req = body"
  by (auto simp: NewRequest_def Let_def split: if_splits sum.splits)

text \<open>
  Claim C10. \<^verbatim>\<open>buildRequest\<close> with a nil options pointer is \<^verbatim>\<open>buildRequest\<close> with the
  zero options: it does not panic, a URL or method that \<^verbatim>\<open>http.NewRequest\<close> refuses is a
  returned error, and otherwise one request goes out, with no body, with the default
  \<^verbatim>\<open>User-Agent\<close> as its only header, through the default client (or the client the
  caller passed).
\<close>

theorem buildRequest_nil_options:
  "buildRequest lib m u None c = buildRequest lib m u (Some zeroOptions) c
   \<and> buildRequest lib m u None c =
       (case NewRequest m u NoBody of
          Inl err \<Rightarrow> Returns \<lparr>returned = Inl err, dispatched = [], optionsAfter = zeroOptions\<rparr>
        | Inr req \<Rightarrow>
            Returns
              \<lparr>returned =
                 clientDo lib (case c of None \<Rightarrow> DefaultClient | Some cl \<Rightarrow> cl)
                   (req\<lparr>ReqHeader := Header_Set [] ''User-Agent'' (localUserAgent lib)\<rparr>),
               dispatched =
                 [(case c of None \<Rightarrow> DefaultClient | Some cl \<Rightarrow> cl,
                   req\<lparr>ReqHeader := Header_Set [] ''User-Agent'' (localUserAgent lib)\<rparr>)],
               optionsAfter = zeroOptions\<rparr>)
   \<and> (\<forall>p. buildRequest lib m u None c \<noteq> Panics p)"
proof -
  have params: "Params (zeroOptions :: ('a, 'b) RequestOptions) = []"
    by (simp add: zeroOptions_def)
  have eq: "buildRequest lib m u None c =
       (case NewRequest m u NoBody of
          Inl err \<Rightarrow> Returns \<lparr>returned = Inl err, dispatched = [], optionsAfter = zeroOptions\<rparr>
        | Inr req \<Rightarrow>
            Returns
              \<lparr>returned =
                 clientDo lib (case c of None \<Rightarrow> DefaultClient | Some cl \<Rightarrow> cl)
                   (req\<lparr>ReqHeader := Header_Set [] ''User-Agent'' (localUserAgent lib)\<rparr>),
               dispatched =
                 [(case c of None \<Rightarrow> DefaultClient | Some cl \<Rightarrow> cl,
                   req\<lparr>ReqHeader := Header_Set [] ''User-Agent'' (localUserAgent lib)\<rparr>)],
               optionsAfter = zeroOptions\<rparr>)"
    by (cases "NewRequest m u NoBody"; cases c)
       (simp_all add: buildRequest_def params buildHTTPRequest_zero addHTTPHeaders_zero
          addCookies_zero BuildHTTPClient_zero NewRequest_Header [of m u NoBody] Let_def)
  have same: "buildRequest lib m u None c = buildRequest lib m u (Some zeroOptions) c"
    by (simp add: buildRequest_def)
  have "buildRequest lib m u None c \<noteq> Panics p" for p
    unfolding eq by (cases "NewRequest m u NoBody") simp_all
  with eq same show ?thesis by blast
qed

lemma plain_clientDo: "clientDo plainLibrary client req = Inr (Method req @ '' '' @ URL_String (ReqURL req))"
  by (simp add: plainLibrary_def)

lemma plain_localUserAgent: "localUserAgent plainLibrary = ''GRequests''"
  by (simp add: plainLibrary_def)

theorem buildRequest_nil_options_witness:
  "buildRequest plainLibrary ''GET'' ''http://example.com/'' None None =
     Returns
       \<lparr>returned = Inr ''GET http://example.com/'',
        dispatched =
          [(DefaultClient,
            \<lparr>Method = ''GET'',
             ReqURL = \<lparr>Scheme = ''http'', Rest = ''//example.com/'', RawQuery = [],
                       ForceQuery = False, Fragment = []\<rparr>,
             ReqHeader = [(''User-Agent'', [''GRequests''])], ReqBody = NoBody\<rparr>)],
        optionsAfter = zeroOptions\<rparr>
   \<and> buildRequest plainLibrary ''GET'' ''http://example.com/'' (Some zeroOptions) None =
       buildRequest plainLibrary ''GET'' ''http://example.com/'' None None"
proof -
  have nr: "NewRequest ''GET'' ''http://example.com/'' NoBody =
      Inr \<lparr>Method = ''GET'',
           ReqURL = \<lparr>Scheme = ''http'', Rest = ''//example.com/'', RawQuery = [],
                     ForceQuery = False, Fragment = []\<rparr>,
           ReqHeader = [], ReqBody = NoBody\<rparr>"
    by code_simp
  have ua: "Header_Set [] ''User-Agent'' ''GRequests'' = [(''User-Agent'', [''GRequests''])]"
    by code_simp
  have str: "URL_String \<lparr>Scheme = ''http'', Rest = ''//example.com/'', RawQuery = [],
                     ForceQuery = False, Fragment = []\<rparr> = ''http://example.com/''"
    by code_simp
  note t = buildRequest_nil_options [of plainLibrary "''GET''" "''http://example.com/''" None]
  have a: "buildRequest plainLibrary ''GET'' ''http://example.com/'' None None =
     Returns
       \<lparr>returned = Inr ''GET http://example.com/'',
        dispatched =
          [(DefaultClient,
            \<lparr>Method = ''GET'',
             ReqURL = \<lparr>Scheme = ''http'', Rest = ''//example.com/'', RawQuery = [],
                       ForceQuery = False, Fragment = []\<rparr>,
             ReqHeader = [(''User-Agent'', [''GRequests''])], ReqBody = NoBody\<rparr>)],
        optionsAfter = zeroOptions\<rparr>"
    unfolding t [THEN conjunct2, THEN conjunct1]
    by (simp add: nr ua str plain_clientDo plain_localUserAgent)
  have b: "buildRequest plainLibrary ''GET'' ''http://example.com/'' (Some zeroOptions) None =
       buildRequest plainLibrary ''GET'' ''http://example.com/'' None None"
    using t [THEN conjunct1] by (rule sym)
  show ?thesis
    using a b by (rule conjI)
qed

section \<open>Choosing the body\<close>

lemma Header_Set_nil_Content_Type:
  "Header_Set [] ''Content-Type'' v = [(''Content-Type'', [v])]"
  by (simp add: Header_Set_def Values_Set_def canon_Content_Type)

lemma createBasicJSONRequest_Inr:
  "createBasicJSONRequest lib m u ro = Inr req \<Longrightarrow>
     ReqHeader req = [(''Content-Type'', [''application/json''])]
     \<and> (\<exists>buf. jsonEncode lib (JSON ro) = Inr buf \<and> ReqBody req = Buffer buf)"
  by (auto simp: createBasicJSONRequest_def Header_Set_nil_Content_Type
        dest: NewRequest_Header NewRequest_Body split: sum.splits)

lemma createBasicJSONRequest_XML:
  "createBasicJSONRequest lib m u (ro\<lparr>XML := x\<rparr>) = createBasicJSONRequest lib m u ro"
  by (simp add: createBasicJSONRequest_def)

text \<open>
  Claim C2. \<^verbatim>\<open>buildHTTPRequest\<close> takes the first of five paths whose test holds: JSON,
  then XML, then File, then Data, else a request without body. With both JSON and XML
  set the JSON path runs whatever the XML value is, and a request that is built has the
  encoder's JSON text as its body and \<^verbatim>\<open>application/json\<close> as its \<^verbatim>\<open>Content-Type\<close>.
\<close>

theorem buildHTTPRequest_first_match:
  "(JSON ro \<noteq> None \<longrightarrow>
      buildHTTPRequest lib m u ro = Returns (createBasicJSONRequest lib m u ro, ro))
   \<and> (JSON ro = None \<and> XML ro \<noteq> None \<longrightarrow>
      buildHTTPRequest lib m u ro = Returns (createBasicXMLRequest lib m u ro, ro))
   \<and> (JSON ro = None \<and> XML ro = None \<and> File ro \<noteq> None \<longrightarrow>
      buildHTTPRequest lib m u ro = createFileUploadRequest lib m u ro)
   \<and> (JSON ro = None \<and> XML ro = None \<and> File ro = None \<and> Data ro \<noteq> None \<longrightarrow>
      buildHTTPRequest lib m u ro = Returns (createBasicRequest m u ro, ro))
   \<and> (JSON ro = None \<and> XML ro = None \<and> File ro = None \<and> Data ro = None \<longrightarrow>
      buildHTTPRequest lib m u ro = Returns (NewRequest m u NoBody, ro))
   \<and> (JSON ro \<noteq> None \<and> XML ro \<noteq> None \<longrightarrow>
      (\<forall>x. buildHTTPRequest lib m u (ro\<lparr>XML := x\<rparr>) =
            Returns (createBasicJSONRequest lib m u ro, ro\<lparr>XML := x\<rparr>))
      \<and> (\<forall>req ro'. buildHTTPRequest lib m u ro = Returns (Inr req, ro') \<longrightarrow>
            Header_Get (ReqHeader req) ''Content-Type'' = ''application/json''
            \<and> ReqHeader req = [(''Content-Type'', [''application/json''])]
            \<and> (\<exists>buf. jsonEncode lib (JSON ro) = Inr buf \<and> ReqBody req = Buffer buf)))"
proof -
  have get: "Header_Get [(''Content-Type'', [''application/json''])] ''Content-Type'' = ''application/json''"
    by (simp add: Header_Get_def Values_Get_def canon_Content_Type)
  have json: "JSON ro \<noteq> None \<Longrightarrow>
      buildHTTPRequest lib m u ro = Returns (createBasicJSONRequest lib m u ro, ro)"
    by (simp add: buildHTTPRequest_def)
  have ignored: "JSON ro \<noteq> None \<Longrightarrow>
      buildHTTPRequest lib m u (ro\<lparr>XML := x\<rparr>) =
        Returns (createBasicJSONRequest lib m u ro, ro\<lparr>XML := x\<rparr>)" for x
    by (simp add: buildHTTPRequest_def createBasicJSONRequest_XML)
  have built: "JSON ro \<noteq> None \<Longrightarrow> buildHTTPRequest lib m u ro = Returns (Inr req, ro') \<Longrightarrow>
      Header_Get (ReqHeader req) ''Content-Type'' = ''application/json''
      \<and> ReqHeader req = [(''Content-Type'', [''application/json''])]
      \<and> (\<exists>buf. jsonEncode lib (JSON ro) = Inr buf \<and> ReqBody req = Buffer buf)" for req ro'
  proof -
    assume j: "JSON ro \<noteq> None" and b: "buildHTTPRequest lib m u ro = Returns (Inr req, ro')"
    from b have "createBasicJSONRequest lib m u ro = Inr req"
      unfolding json [OF j] by auto
    from createBasicJSONRequest_Inr [OF this] get show ?thesis
      by simp
  qed
  have rest: "(JSON ro = None \<and> XML ro \<noteq> None \<longrightarrow>
      buildHTTPRequest lib m u ro = Returns (createBasicXMLRequest lib m u ro, ro))
   \<and> (JSON ro = None \<and> XML ro = None \<and> File ro \<noteq> None \<longrightarrow>
      buildHTTPRequest lib m u ro = createFileUploadRequest lib m u ro)
   \<and> (JSON ro = None \<and> XML ro = None \<and> File ro = None \<and> Data ro \<noteq> None \<longrightarrow>
      buildHTTPRequest lib m u ro = Returns (createBasicRequest m u ro, ro))
   \<and> (JSON ro = None \<and> XML ro = None \<and> File ro = None \<and> Data ro = None \<longrightarrow>
      buildHTTPRequest lib m u ro = Returns (NewRequest m u NoBody, ro))"
    by (simp add: buildHTTPRequest_def)
  from json ignored built rest show ?thesis
    by blast
qed

lemma plain_jsonEncode: "jsonEncode plainLibrary (Some t) = Inr (t @ [CHR 0x0A])"
  by (simp add: plainLibrary_def encodeText_def)

theorem buildHTTPRequest_first_match_witness:
  "buildHTTPRequest plainLibrary ''POST'' ''http://example.com/''
     (zeroOptions\<lparr>JSON := Some ''{}'', XML := Some ''<a/>''\<rparr>) =
   Returns
     (Inr \<lparr>Method = ''POST'',
           ReqURL = \<lparr>Scheme = ''http'', Rest = ''//example.com/'', RawQuery = [],
                     ForceQuery = False, Fragment = []\<rparr>,
           ReqHeader = [(''Content-Type'', [''application/json''])],
           ReqBody = Buffer (''{}'' @ [CHR 0x0A])\<rparr>,
      zeroOptions\<lparr>JSON := Some ''{}'', XML := Some ''<a/>''\<rparr>)"
proof -
  let ?ro = "(zeroOptions :: (string, string) RequestOptions)\<lparr>JSON := Some ''{}'', XML := Some ''<a/>''\<rparr>"
  have nr: "NewRequest ''POST'' ''http://example.com/'' body =
      Inr \<lparr>Method = ''POST'',
           ReqURL = \<lparr>Scheme = ''http'', Rest = ''//example.com/'', RawQuery = [],
                     ForceQuery = False, Fragment = []\<rparr>,
           ReqHeader = [], ReqBody = body\<rparr>" for body
    by code_simp
  have j: "JSON ?ro \<noteq> None"
    by simp
  have enc: "jsonEncode plainLibrary (JSON ?ro) = Inr (''{}'' @ [CHR 0x0A])"
    by (simp add: plain_jsonEncode)
  have "createBasicJSONRequest plainLibrary ''POST'' ''http://example.com/'' ?ro =
     Inr \<lparr>Method = ''POST'',
           ReqURL = \<lparr>Scheme = ''http'', Rest = ''//example.com/'', RawQuery = [],
                     ForceQuery = False, Fragment = []\<rparr>,
           ReqHeader = [(''Content-Type'', [''application/json''])],
           ReqBody = Buffer (''{}'' @ [CHR 0x0A])\<rparr>"
    unfolding createBasicJSONRequest_def enc
    by (simp add: nr Header_Set_nil_Content_Type)
  with buildHTTPRequest_first_match [of ?ro plainLibrary "''POST''" "''http://example.com/''",
      THEN conjunct1] j
  show ?thesis
    by simp
qed

section \<open>The multipart upload and its stream\<close>

text \<open>
  How often \<^verbatim>\<open>createMultiPartPostRequest\<close> closes a stream that is there: once when the
  file part was started and the copy ended at end of stream (also when closing the
  writer or \<^verbatim>\<open>http.NewRequest\<close> fails afterwards), and not at all when the file part
  could not be started or the copy failed.
\<close>

lemma createMultiPartPostRequest_closed:
  assumes "File ro = Some file" and "FileContents file = Some src"
  shows "\<exists>res file' src'.
           createMultiPartPostRequest lib m u ro = Returns (res, ro\<lparr>File := Some file'\<rparr>)
           \<and> FileContents file' = Some src'
           \<and> closed src' =
               (if createFormFileError lib = None \<and> failure src = None then closed src + 1
                else closed src)"
proof (cases "createFormFileError lib")
  case (Some err)
  with assms have "createMultiPartPostRequest lib m u ro = Returns (Inl err, ro\<lparr>File := Some file\<rparr>)"
    by (simp add: createMultiPartPostRequest_def)
  with assms Some show ?thesis
    by auto
next
  case None
  show ?thesis
  proof (cases "failure src")
    case (Some err)
    with assms None have
      "createMultiPartPostRequest lib m u ro =
         Returns (Inl err, ro\<lparr>File := Some (file\<lparr>FileContents := Some (src\<lparr>pending := []\<rparr>)\<rparr>)\<rparr>)"
      by (simp add: createMultiPartPostRequest_def io_Copy_def withStream_def)
    with Some show ?thesis
      by auto
  next
    case no_failure: None
    with assms None have
      "\<exists>res. createMultiPartPostRequest lib m u ro =
         Returns (res, ro\<lparr>File := Some (file\<lparr>FileContents := Some (Close (src\<lparr>pending := []\<rparr>))\<rparr>)\<rparr>)"
      by (simp add: createMultiPartPostRequest_def io_Copy_def withStream_def Let_def
            split: option.splits sum.splits)
    then obtain res where
      "createMultiPartPostRequest lib m u ro =
         Returns (res, ro\<lparr>File := Some (file\<lparr>FileContents := Some (Close (src\<lparr>pending := []\<rparr>))\<rparr>)\<rparr>)"
      by blast
    moreover have "closed (Close (src\<lparr>pending := []\<rparr>)) = closed src + 1"
      by (simp add: Close_def)
    ultimately show ?thesis
      using None no_failure by auto
  qed
qed

text \<open>
  Claim C1 says the stream is closed exactly once on every return of the multipart
  encoder, also when the copy fails. Evaluated on a stream of ten bytes whose read fails:
  the encoder returns the read error and the stream has not been closed.
\<close>

theorem createMultiPartPostRequest_failed_copy_not_closed:
  "createMultiPartPostRequest plainLibrary ''POST'' ''http://example.com/upload''
     (zeroOptions
        \<lparr>File := Some \<lparr>FileName = ''a.txt'',
                         FileContents =
                           Some \<lparr>pending = ''0123456789'',
                                 failure = Some (LibraryError ''read failed''), closed = 0\<rparr>\<rparr>\<rparr>)
   = Returns
       (Inl (LibraryError ''read failed''),
        zeroOptions
          \<lparr>File := Some \<lparr>FileName = ''a.txt'',
                           FileContents =
                             Some \<lparr>pending = [],
                                   failure = Some (LibraryError ''read failed''), closed = 0\<rparr>\<rparr>\<rparr>)"
  by (simp add: createMultiPartPostRequest_def io_Copy_def withStream_def plainLibrary_def
        zeroOptions_def)

section \<open>Query parameters and a malformed query\<close>

text \<open>
  \<^verbatim>\<open>buildURLParams\<close> returns an error exactly when \<^verbatim>\<open>url.Parse\<close> does: the error of
  \<^verbatim>\<open>url.ParseQuery\<close> is assigned and never tested.
\<close>

lemma buildURLParams_error_iff:
  "buildURLParams userURL params = Inl err \<longleftrightarrow> url_Parse userURL = Inl err"
  by (auto simp: buildURLParams_def Let_def split: sum.splits prod.splits)

lemma buildURLParams_returns:
  "url_Parse userURL = Inr parsedURL \<Longrightarrow> \<exists>s. buildURLParams userURL params = Inr s"
  by (auto simp: buildURLParams_def Let_def split: sum.splits prod.splits)

lemma ParseQuery_bad_escape: "ParseQuery ''a=%zz'' = ([], Some (EscapeError ''%zz''))"
  by code_simp

lemma buildURLParams_bad_escape:
  "buildURLParams ''http://example.com/?a=%zz'' [(''b'', ''1'')] = Inr ''http://example.com/?b=1''"
  by code_simp

lemma NewRequest_GET_b1:
  "NewRequest ''GET'' ''http://example.com/?b=1'' body =
     Inr \<lparr>Method = ''GET'',
          ReqURL = \<lparr>Scheme = ''http'', Rest = ''//example.com/'', RawQuery = ''b=1'',
                    ForceQuery = False, Fragment = []\<rparr>,
          ReqHeader = [], ReqBody = body\<rparr>"
  by code_simp

lemma Header_Set_nil_User_Agent: "Header_Set [] ''User-Agent'' v = [(''User-Agent'', [v])]"
proof -
  have "CanonicalMIMEHeaderKey ''User-Agent'' = ''User-Agent''"
    by code_simp
  then show ?thesis
    by (simp add: Header_Set_def Values_Set_def)
qed

text \<open>
  Claim C3 says a malformed query string makes the request build return an error and
  nothing is sent. Evaluated on \<^verbatim>\<open>http://example.com/?a=%zz\<close> with one parameter:
  \<^verbatim>\<open>url.ParseQuery\<close> reports the bad escape, \<^verbatim>\<open>buildURLParams\<close> returns a URL without
  the bad pair and no error, and \<^verbatim>\<open>buildRequest\<close> sends the request.
\<close>

theorem buildRequest_malformed_query_dispatched:
  "ParseQuery ''a=%zz'' = ([], Some (EscapeError ''%zz''))
   \<and> buildURLParams ''http://example.com/?a=%zz'' [(''b'', ''1'')] = Inr ''http://example.com/?b=1''
   \<and> buildRequest plainLibrary ''GET'' ''http://example.com/?a=%zz''
         (Some (zeroOptions\<lparr>Params := [(''b'', ''1'')]\<rparr>)) None =
       Returns
         \<lparr>returned = Inr ''GET http://example.com/?b=1'',
          dispatched =
            [(DefaultClient,
              \<lparr>Method = ''GET'',
               ReqURL = \<lparr>Scheme = ''http'', Rest = ''//example.com/'', RawQuery = ''b=1'',
                         ForceQuery = False, Fragment = []\<rparr>,
               ReqHeader = [(''User-Agent'', [''GRequests''])], ReqBody = NoBody\<rparr>)],
          optionsAfter = zeroOptions\<lparr>Params := [(''b'', ''1'')]\<rparr>\<rparr>"
proof -
  let ?ro = "(zeroOptions :: (string, string) RequestOptions)\<lparr>Params := [(''b'', ''1'')]\<rparr>"
  have str: "URL_String \<lparr>Scheme = ''http'', Rest = ''//example.com/'', RawQuery = ''b=1'',
                         ForceQuery = False, Fragment = []\<rparr> = ''http://example.com/?b=1''"
    by code_simp
  have client: "BuildHTTPClient plainLibrary ?ro = DefaultClient"
    by (simp add: BuildHTTPClient_def DontUseDefaultClient_def zeroOptions_def)
  have body: "buildHTTPRequest plainLibrary ''GET'' ''http://example.com/?b=1'' ?ro =
      Returns (NewRequest ''GET'' ''http://example.com/?b=1'' NoBody, ?ro)"
    by (simp add: buildHTTPRequest_def zeroOptions_def)
  have hdrs: "addHTTPHeaders plainLibrary ?ro req =
      Returns (req\<lparr>ReqHeader := Header_Set (ReqHeader req) ''User-Agent'' ''GRequests''\<rparr>)" for req
    by (simp add: addHTTPHeaders_def zeroOptions_def plain_localUserAgent)
  have cookies: "addCookies ?ro req = req" for req
    by (simp add: addCookies_def zeroOptions_def)
  have params: "Params ?ro = [(''b'', ''1'')]"
    by simp
  have "buildRequest plainLibrary ''GET'' ''http://example.com/?a=%zz'' (Some ?ro) None =
       Returns
         \<lparr>returned = Inr ''GET http://example.com/?b=1'',
          dispatched =
            [(DefaultClient,
              \<lparr>Method = ''GET'',
               ReqURL = \<lparr>Scheme = ''http'', Rest = ''//example.com/'', RawQuery = ''b=1'',
                         ForceQuery = False, Fragment = []\<rparr>,
               ReqHeader = [(''User-Agent'', [''GRequests''])], ReqBody = NoBody\<rparr>)],
          optionsAfter = ?ro\<rparr>"
    unfolding buildRequest_def
    by (simp add: params client buildURLParams_bad_escape body NewRequest_GET_b1 hdrs cookies
          Header_Set_nil_User_Agent plain_clientDo str del: One_nat_def)
  with ParseQuery_bad_escape buildURLParams_bad_escape show ?thesis
    by blast
qed

section \<open>Headers and basic authentication\<close>

text \<open>
  \<^verbatim>\<open>addHTTPHeaders\<close> indexes \<^verbatim>\<open>ro.Auth[0]\<close> and \<^verbatim>\<open>ro.Auth[1]\<close> after testing the
  slice against nil only: it panics exactly when the slice is there and has fewer than
  two elements. Building the body never panics, and \<^verbatim>\<open>[alice, secret]\<close> gives the
  header the specification expects.
\<close>

lemma addHTTPHeaders_panics_iff:
  "(\<exists>p. addHTTPHeaders lib ro req = Panics p) \<longleftrightarrow> (\<exists>auth. Auth ro = Some auth \<and> length auth < 2)"
  by (auto simp: addHTTPHeaders_def Let_def split: option.splits)

lemma buildHTTPRequest_returns: "buildHTTPRequest lib m u ro \<noteq> Panics p"
  by (auto simp: buildHTTPRequest_def createFileUploadRequest_def createMultiPartPostRequest_def
        io_Copy_def Let_def split: option.splits sum.splits prod.splits)

lemma NewRequest_GET_example:
  "NewRequest ''GET'' ''http://example.com/'' body =
     Inr \<lparr>Method = ''GET'',
          ReqURL = \<lparr>Scheme = ''http'', Rest = ''//example.com/'', RawQuery = [],
                    ForceQuery = False, Fragment = []\<rparr>,
          ReqHeader = [], ReqBody = body\<rparr>"
  by code_simp

lemma base64_alice: "base64 ''alice:secret'' = ''YWxpY2U6c2VjcmV0''"
  by (simp add: b64_def)

lemma basic_auth_alice:
  "SetBasicAuth [] ''alice'' ''secret'' = [(''Authorization'', [''Basic YWxpY2U6c2VjcmV0''])]"
proof -
  have "CanonicalMIMEHeaderKey ''Authorization'' = ''Authorization''"
    by code_simp
  then show ?thesis
    using base64_alice by (simp add: SetBasicAuth_def Header_Set_def Values_Set_def)
qed

text \<open>
  Claim C4 says request assembly never aborts and attaching headers cannot fail once
  \<^verbatim>\<open>Auth\<close> is set. Evaluated on \<^verbatim>\<open>Auth = []string{"alice"}\<close>: \<^verbatim>\<open>addHTTPHeaders\<close>
  panics with an index out of range, and so does \<^verbatim>\<open>buildRequest\<close>.
\<close>

theorem addHTTPHeaders_short_Auth_panics:
  "(\<forall>(lib :: (string, string, string) Library) req.
      addHTTPHeaders lib (zeroOptions\<lparr>Auth := Some [''alice'']\<rparr>) req = Panics (IndexOutOfRange 1 1))
   \<and> buildRequest plainLibrary ''GET'' ''http://example.com/''
         (Some (zeroOptions\<lparr>Auth := Some [''alice'']\<rparr>)) None = Panics (IndexOutOfRange 1 1)"
proof -
  let ?ro = "(zeroOptions :: (string, string) RequestOptions)\<lparr>Auth := Some [''alice'']\<rparr>"
  have hdrs: "addHTTPHeaders lib ?ro req = Panics (IndexOutOfRange 1 1)"
    for lib :: "(string, string, string) Library" and req
    by (simp add: addHTTPHeaders_def Let_def)
  have body: "buildHTTPRequest plainLibrary ''GET'' ''http://example.com/'' ?ro =
      Returns (NewRequest ''GET'' ''http://example.com/'' NoBody, ?ro)"
    by (simp add: buildHTTPRequest_def zeroOptions_def)
  have params: "Params ?ro = []"
    by (simp add: zeroOptions_def)
  have "buildRequest plainLibrary ''GET'' ''http://example.com/'' (Some ?ro) None =
      Panics (IndexOutOfRange 1 1)"
    unfolding buildRequest_def
    by (simp add: params body NewRequest_GET_example hdrs del: One_nat_def)
  with hdrs show ?thesis
    by blast
qed

section \<open>Uploading a file with another verb\<close>

text \<open>
  For a verb other than POST the request body is the file's stream itself (no body when
  the stream is nil), and \<^verbatim>\<open>Content-Type\<close> is what \<^verbatim>\<open>mime.TypeByExtension\<close> answers
  for the whole file name, which is passed where an extension is expected.
\<close>

lemma createFileUploadRequest_raw:
  assumes "httpMethod \<noteq> ''POST''" and "File ro = Some file"
  shows "createFileUploadRequest lib httpMethod userURL ro =
           (case NewRequest httpMethod userURL (fileBody file) of
              Inl err \<Rightarrow> Returns (Inl err, ro)
            | Inr req \<Rightarrow>
                Returns
                  (Inr (req\<lparr>ReqHeader :=
                          [(''Content-Type'', [TypeByExtension lib (FileName file)])]\<rparr>),
                   ro))"
    and "createFileUploadRequest lib httpMethod userURL ro = Returns (Inr req', ro') \<Longrightarrow>
           ReqBody req' = fileBody file
           \<and> Header_Get (ReqHeader req') ''Content-Type'' = TypeByExtension lib (FileName file)"
proof -
  show eq: "createFileUploadRequest lib httpMethod userURL ro =
           (case NewRequest httpMethod userURL (fileBody file) of
              Inl err \<Rightarrow> Returns (Inl err, ro)
            | Inr req \<Rightarrow>
                Returns
                  (Inr (req\<lparr>ReqHeader :=
                          [(''Content-Type'', [TypeByExtension lib (FileName file)])]\<rparr>),
                   ro))"
    using assms
    by (cases "NewRequest httpMethod userURL (fileBody file)")
       (simp_all add: createFileUploadRequest_def Header_Set_nil_Content_Type
          NewRequest_Header [of httpMethod userURL "fileBody file"])
  assume built: "createFileUploadRequest lib httpMethod userURL ro = Returns (Inr req', ro')"
  have get: "Header_Get [(''Content-Type'', [v])] ''Content-Type'' = v" for v
    by (simp add: Header_Get_def Values_Get_def canon_Content_Type)
  from built show "ReqBody req' = fileBody file
      \<and> Header_Get (ReqHeader req') ''Content-Type'' = TypeByExtension lib (FileName file)"
    unfolding eq
    by (cases "NewRequest httpMethod userURL (fileBody file)")
       (auto simp: get NewRequest_Body [of httpMethod userURL "fileBody file"])
qed

lemma Ext_photo: "Ext ''photo.png'' = ''.png''"
  by code_simp

lemma TypeByExtension_png: "TypeByExtension plainLibrary ''.png'' = ''image/png''"
  by (simp add: TypeByExtension_def plainLibrary_def builtinTypesLower_def)

lemma TypeByExtension_photo: "TypeByExtension plainLibrary ''photo.png'' = []"
  by (simp add: TypeByExtension_def plainLibrary_def builtinTypesLower_def toLower_def isUpper_def)

lemma NewRequest_PUT_example:
  "NewRequest ''PUT'' ''http://example.com/up'' body =
     Inr \<lparr>Method = ''PUT'',
          ReqURL = \<lparr>Scheme = ''http'', Rest = ''//example.com/up'', RawQuery = [],
                    ForceQuery = False, Fragment = []\<rparr>,
          ReqHeader = [], ReqBody = body\<rparr>"
  by code_simp

text \<open>
  Claim C9 says the content type is guessed from the extension of the file name.
  Evaluated on a PUT of \<^verbatim>\<open>photo.png\<close>: the body is the raw stream, but the header is
  empty although the extension \<^verbatim>\<open>.png\<close> has the type \<^verbatim>\<open>image/png\<close> in the table.
\<close>

theorem createFileUploadRequest_type_of_whole_name:
  "createFileUploadRequest plainLibrary ''PUT'' ''http://example.com/up''
     (zeroOptions
        \<lparr>File := Some \<lparr>FileName = ''photo.png'',
                         FileContents =
                           Some \<lparr>pending = ''0123456789'', failure = None, closed = 0\<rparr>\<rparr>\<rparr>)
   = Returns
       (Inr \<lparr>Method = ''PUT'',
             ReqURL = \<lparr>Scheme = ''http'', Rest = ''//example.com/up'', RawQuery = [],
                       ForceQuery = False, Fragment = []\<rparr>,
             ReqHeader = [(''Content-Type'', [[]])],
             ReqBody = Stream \<lparr>pending = ''0123456789'', failure = None, closed = 0\<rparr>\<rparr>,
        zeroOptions
          \<lparr>File := Some \<lparr>FileName = ''photo.png'',
                           FileContents =
                             Some \<lparr>pending = ''0123456789'', failure = None, closed = 0\<rparr>\<rparr>\<rparr>)
   \<and> Ext ''photo.png'' = ''.png''
   \<and> TypeByExtension plainLibrary (Ext ''photo.png'') = ''image/png''"
proof -
  let ?src = "\<lparr>pending = ''0123456789'', failure = None, closed = 0\<rparr>"
  let ?file = "\<lparr>FileName = ''photo.png'', FileContents = Some ?src\<rparr>"
  let ?ro = "(zeroOptions :: (string, string) RequestOptions)\<lparr>File := Some ?file\<rparr>"
  have put: "''PUT'' \<noteq> ''POST''"
    by simp
  have fileset: "File ?ro = Some ?file"
    by simp
  have "createFileUploadRequest plainLibrary ''PUT'' ''http://example.com/up'' ?ro =
      Returns
       (Inr \<lparr>Method = ''PUT'',
             ReqURL = \<lparr>Scheme = ''http'', Rest = ''//example.com/up'', RawQuery = [],
                       ForceQuery = False, Fragment = []\<rparr>,
             ReqHeader = [(''Content-Type'', [[]])],
             ReqBody = Stream ?src\<rparr>,
        ?ro)"
    unfolding createFileUploadRequest_raw(1) [OF put fileset]
    by (simp add: NewRequest_PUT_example TypeByExtension_photo fileBody_def)
  then show ?thesis
    using Ext_photo TypeByExtension_png by simp
qed

end
